theory Spec2Isabelle
  imports Complex_Main
begin

section \<open>Python values shared by the control programs\<close>

text \<open>
  The repository holds three control programs for the Go2 quadruped: the real-robot loop
  (\<^verbatim>\<open>go2_gait.py\<close>), the PyBullet simulation loop (\<^verbatim>\<open>go2_gait_simulation.py\<close>) and
  the UDP-bridged controllers (\<^verbatim>\<open>go2control_system.py\<close>, \<^verbatim>\<open>pyCLI.py\<close>).
  Python floats are modelled as reals, a three-element list or tuple of floats as a triple,
  and an exception as a value: a statement that may raise returns \<open>Inl (e, s)\<close>, the
  exception together with the state reached when it was raised, or \<open>Inr s\<close>.
\<close>

datatype py_error = TypeError | IndexError | ZeroDivisionError | AttributeError | Exception

type_synonym vec3 = "real \<times> real \<times> real"

type_synonym 'a outcome = "(py_error \<times> 'a) + 'a"

fun idx0 :: "vec3 \<Rightarrow> real" where "idx0 (a, b, c) = a"
fun idx1 :: "vec3 \<Rightarrow> real" where "idx1 (a, b, c) = b"
fun idx2 :: "vec3 \<Rightarrow> real" where "idx2 (a, b, c) = c"

definition zero3 :: vec3 where
  "zero3 = (0, 0, 0)"

definition ord :: "char \<Rightarrow> nat" where
  "ord c = of_char c"

definition radians :: "real \<Rightarrow> real" where
  "radians x = x * pi / 180"

section \<open>PathController (go2\_gait\_simulation.py)\<close>

text \<open>
  \<^verbatim>\<open>PathController.__init__\<close> fixes the path length and the six speed modes.
  The real-robot loop also assigns an attribute \<^verbatim>\<open>stop_start_time\<close> that no code
  reads; it is left out of the record.
\<close>

record path_controller =
  path_length :: real
  speed_modes :: "string list"
  current_speed_mode :: nat
  gaze_enabled :: bool
  was_stopped :: bool

definition default_speed_modes :: "string list" where
  "default_speed_modes =
     [''1-3_gradual'', ''3-1_gradual'', ''1-3_abrupt'', ''3-1_abrupt'', ''1_stop_1'', ''3_stop_3'']"

definition PathController_init :: path_controller where
  "PathController_init =
     \<lparr>path_length = 15.0, speed_modes = default_speed_modes, current_speed_mode = 0,
      gaze_enabled = False, was_stopped = False\<rparr>"

text \<open>
  \<^verbatim>\<open>get_speed(self, distance_traveled)\<close>: the list lookup raises \<^verbatim>\<open>IndexError\<close> out
  of range and the float division raises \<^verbatim>\<open>ZeroDivisionError\<close> for a zero path length.
\<close>

definition get_speed :: "path_controller \<Rightarrow> real \<Rightarrow> py_error + real" where
  "get_speed self distance_traveled =
     (if \<not> current_speed_mode self < length (speed_modes self) then Inl IndexError
      else
        let mode = speed_modes self ! current_speed_mode self in
        if mode = ''1-3_gradual'' then
          (if path_length self = 0 then Inl ZeroDivisionError
           else Inr (1.0 + (distance_traveled / path_length self) * 2.0))
        else if mode = ''3-1_gradual'' then
          (if path_length self = 0 then Inl ZeroDivisionError
           else Inr (3.0 - (distance_traveled / path_length self) * 2.0))
        else if mode = ''1-3_abrupt'' then
          Inr (if distance_traveled < 8.0 then 1.0 else 3.0)
        else if mode = ''3-1_abrupt'' then
          Inr (if distance_traveled < 8.0 then 3.0 else 1.0)
        else if mode = ''1_stop_1'' then
          Inr (if distance_traveled < 8.0 then 1.0
               else if distance_traveled < 8.5 then 0.0 else 1.0)
        else if mode = ''3_stop_3'' then
          Inr (if distance_traveled < 8.0 then 3.0
               else if distance_traveled < 8.5 then 0.0 else 3.0)
        else Inr 1.0)"

text \<open>
  A call binds its positional arguments against the signature
  \<^verbatim>\<open>get_speed(self, distance_traveled)\<close> before the body runs: exactly one argument
  besides \<^verbatim>\<open>self\<close> is accepted, any other number raises \<^verbatim>\<open>TypeError\<close>.
\<close>

fun call_get_speed :: "path_controller \<Rightarrow> real list \<Rightarrow> py_error + real" where
  "call_get_speed self [distance_traveled] = get_speed self distance_traveled"
| "call_get_speed self args = Inl TypeError"

definition get_gaze_angle :: "path_controller \<Rightarrow> real \<Rightarrow> real" where
  "get_gaze_angle self t = (if \<not> gaze_enabled self then 0.0 else 15.0 * sin (0.5 * t))"

subsection \<open>The speed table of the specification\<close>

text \<open>
  The second definition follows the words of the specification's policy table
  (section 4.2), for a path of length \<open>L\<close>; it is compared with \<open>get_speed\<close> below.
  \<open>policies\<close> lists the policy ids in the order of the source's \<^verbatim>\<open>speed_modes\<close>.
\<close>

datatype policy =
  ramp_up | ramp_down | step_up_at_half | step_down_at_half | pause_slow | pause_fast

definition policies :: "policy list" where
  "policies = [ramp_up, ramp_down, step_up_at_half, step_down_at_half, pause_slow, pause_fast]"

fun SpeedProfile_spec :: "real \<Rightarrow> policy \<Rightarrow> real \<Rightarrow> real" where
  "SpeedProfile_spec L ramp_up d = 1.0 + (d / L) * 2.0"
| "SpeedProfile_spec L ramp_down d = 3.0 - (d / L) * 2.0"
| "SpeedProfile_spec L step_up_at_half d = (if d < L * 8 / 15 then 1.0 else 3.0)"
| "SpeedProfile_spec L step_down_at_half d = (if d < 8.0 then 3.0 else 1.0)"
| "SpeedProfile_spec L pause_slow d =
     (if d < 8.0 then 1.0 else if 8.0 \<le> d \<and> d < 8.5 then 0.0 else 1.0)"
| "SpeedProfile_spec L pause_fast d =
     (if d < 8.0 then 3.0 else if 8.0 \<le> d \<and> d < 8.5 then 0.0 else 3.0)"

section \<open>Go2RealRobot (go2\_gait.py)\<close>

text \<open>
  The fields of \<^verbatim>\<open>Go2RealRobot\<close>, with two additions that make its effects explicit:
  \<open>sent\<close> is the list of velocity triples \<^verbatim>\<open>[vx, vy, vyaw]\<close> of the commands handed
  to \<^verbatim>\<open>cmd_publisher.Write\<close>, oldest first, and \<open>clock\<close> is the wall clock in seconds
  as \<^verbatim>\<open>time.time()\<close> reads it. Only \<^verbatim>\<open>time.sleep\<close> advances the clock, by the
  requested duration: a lower bound on the time that really passes.
  \<^verbatim>\<open>set_base_velocity\<close> catches every exception of the SDK calls itself, so it never
  raises.
\<close>

record Go2RealRobot =
  start_pos :: vec3
  initial_yaw :: real
  current_yaw :: real
  current_position :: vec3
  is_connected :: bool
  last_cmd_time :: real
  sent :: "vec3 list"
  clock :: real

definition sleep :: "real \<Rightarrow> Go2RealRobot \<Rightarrow> Go2RealRobot" where
  "sleep d self = self\<lparr>clock := clock self + d\<rparr>"

definition set_base_velocity :: "vec3 \<Rightarrow> vec3 \<Rightarrow> Go2RealRobot \<Rightarrow> Go2RealRobot" where
  "set_base_velocity linear_velocity angular_velocity self =
     (let max_linear_speed = 3.5;
          max_angular_speed = 2.0;
          vx = max (- max_linear_speed) (min max_linear_speed (idx0 linear_velocity));
          vy = max (- max_linear_speed) (min max_linear_speed (idx1 linear_velocity));
          vyaw = max (- max_angular_speed) (min max_angular_speed (idx2 angular_velocity))
      in self\<lparr>sent := sent self @ [(vx, vy, vyaw)], last_cmd_time := clock self\<rparr>)"

definition get_position :: "Go2RealRobot \<Rightarrow> vec3" where
  "get_position self = current_position self"

definition reset :: "Go2RealRobot \<Rightarrow> Go2RealRobot" where
  "reset self =
     (let self1 = set_base_velocity zero3 zero3 self
      in self1\<lparr>start_pos := current_position self1, initial_yaw := current_yaw self1\<rparr>)"

text \<open>\<^verbatim>\<open>emergency_stop\<close>: the loop \<^verbatim>\<open>for _ in range(10)\<close> as a recursion on the count.\<close>

fun stop_burst :: "nat \<Rightarrow> Go2RealRobot \<Rightarrow> Go2RealRobot" where
  "stop_burst 0 self = self"
| "stop_burst (Suc n) self = stop_burst n (sleep 0.01 (set_base_velocity zero3 zero3 self))"

definition emergency_stop :: "Go2RealRobot \<Rightarrow> Go2RealRobot" where
  "emergency_stop self = stop_burst 10 self"

text \<open>
  The instants at which the commands of such a burst are sent: the same steps as
  \<open>stop_burst\<close>, recording \<^verbatim>\<open>last_cmd_time\<close> after each command.
\<close>

fun burst_times :: "nat \<Rightarrow> Go2RealRobot \<Rightarrow> real list" where
  "burst_times 0 self = []"
| "burst_times (Suc n) self =
     (let self1 = set_base_velocity zero3 zero3 self
      in last_cmd_time self1 # burst_times n (sleep 0.01 self1))"

text \<open>
  \<^verbatim>\<open>__init__\<close> waits up to five seconds for the state-monitoring thread to report a
  message; \<open>connects\<close> says whether it does. No command is sent during construction.
  \<^verbatim>\<open>__del__\<close> runs \<^verbatim>\<open>emergency_stop\<close> whenever the object is collected; this can
  only add zero commands and is not modelled.
\<close>

definition Go2RealRobot_init :: "real \<Rightarrow> bool \<Rightarrow> py_error + Go2RealRobot" where
  "Go2RealRobot_init now connects =
     (if connects then
        Inr \<lparr>start_pos = (0.0, 0.0, 0.28), initial_yaw = 0.0, current_yaw = 0.0,
             current_position = (0.0, 0.0, 0.28), is_connected = True,
             last_cmd_time = now, sent = [], clock = now\<rparr>
      else Inl Exception)"

section \<open>The real-robot control loop (go2\_gait.py, main)\<close>

text \<open>
  The local variables of \<^verbatim>\<open>main\<close> that live across iterations of
  \<^verbatim>\<open>while True\<close>. \<open>path_mode\<close> is the string \<^verbatim>\<open>'forward'\<close> or \<^verbatim>\<open>'leftward'\<close>.
\<close>

record gait_main =
  robot :: Go2RealRobot
  path_controller :: path_controller
  path_mode :: string
  is_walking :: bool
  start_time :: "real option"
  initial_pos :: "vec3 option"
  last_status_time :: real

text \<open>
  What the environment supplies to one iteration: the values the state-monitoring thread
  last wrote (\<^verbatim>\<open>is_connected\<close>, \<^verbatim>\<open>current_position\<close>, \<^verbatim>\<open>current_yaw\<close>) and the key
  codes returned by \<^verbatim>\<open>keyboard.get_keys()\<close>.
\<close>

record tick_input =
  fb_connected :: bool
  fb_position :: vec3
  fb_yaw :: real
  keys :: "nat list"

definition monitor_state :: "tick_input \<Rightarrow> Go2RealRobot \<Rightarrow> Go2RealRobot" where
  "monitor_state inp self =
     self\<lparr>is_connected := fb_connected inp, current_position := fb_position inp,
          current_yaw := fb_yaw inp\<rparr>"

definition gait_main_init :: "Go2RealRobot \<Rightarrow> gait_main" where
  "gait_main_init r =
     \<lparr>robot = r, path_controller = PathController_init, path_mode = ''leftward'',
      is_walking = False, start_time = None, initial_pos = None,
      last_status_time = clock r\<rparr>"

subsection \<open>Keyboard handling (lines 334 to 373)\<close>

definition on_space :: "real \<Rightarrow> gait_main \<Rightarrow> gait_main" where
  "on_space current_time s =
     (let s1 = s\<lparr>is_walking := \<not> is_walking s\<rparr> in
      if is_walking s1 then
        s1\<lparr>start_time := Some current_time,
           initial_pos := Some (get_position (robot s1)),
           path_controller := (path_controller s1)\<lparr>was_stopped := False\<rparr>\<rparr>
      else s1\<lparr>robot := set_base_velocity zero3 zero3 (robot s1)\<rparr>)"

definition on_p :: "gait_main \<Rightarrow> gait_main" where
  "on_p s = s\<lparr>path_mode := (if path_mode s = ''forward'' then ''leftward'' else ''forward'')\<rparr>"

text \<open>
  The modulus \<^verbatim>\<open>% len(speed_modes)\<close> raises \<^verbatim>\<open>ZeroDivisionError\<close> for an empty list
  of modes.
\<close>

definition on_s :: "gait_main \<Rightarrow> gait_main outcome" where
  "on_s s =
     (let pc = path_controller s in
      if length (speed_modes pc) = 0 then Inl (ZeroDivisionError, s)
      else Inr (s\<lparr>path_controller :=
             pc\<lparr>current_speed_mode := (current_speed_mode pc + 1) mod length (speed_modes pc)\<rparr>\<rparr>))"

definition on_g :: "gait_main \<Rightarrow> gait_main" where
  "on_g s =
     s\<lparr>path_controller := (path_controller s)\<lparr>gaze_enabled := \<not> gaze_enabled (path_controller s)\<rparr>\<rparr>"

definition on_r :: "gait_main \<Rightarrow> gait_main" where
  "on_r s =
     s\<lparr>robot := reset (robot s), is_walking := False, path_mode := ''leftward'',
       path_controller := (path_controller s)\<lparr>was_stopped := False\<rparr>\<rparr>"

definition handle_keys :: "nat list \<Rightarrow> real \<Rightarrow> gait_main \<Rightarrow> gait_main outcome" where
  "handle_keys ks current_time s =
     (let s1 = (if ord CHR '' '' \<in> set ks then on_space current_time s else s);
          s2 = (if ord CHR ''p'' \<in> set ks then on_p s1 else s1)
      in case (if ord CHR ''s'' \<in> set ks then on_s s2 else Inr s2) of
           Inl e \<Rightarrow> Inl e
         | Inr s3 \<Rightarrow>
             let s4 = (if ord CHR ''g'' \<in> set ks then on_g s3 else s3)
             in Inr (if ord CHR ''r'' \<in> set ks then on_r s4 else s4))"

subsection \<open>Main walking logic (lines 375 to 438)\<close>

definition distance_traveled_of :: "vec3 \<Rightarrow> vec3 option \<Rightarrow> real" where
  "distance_traveled_of current_pos initial =
     (case initial of
        Some ip \<Rightarrow> sqrt ((idx0 current_pos - idx0 ip)\<^sup>2 + (idx1 current_pos - idx1 ip)\<^sup>2)
      | None \<Rightarrow> 0)"

definition yaw_error :: "string \<Rightarrow> real \<Rightarrow> real" where
  "yaw_error pmode yaw = (if pmode = ''forward'' then - yaw else pi / 2 - yaw)"

definition yaw_correction :: "string \<Rightarrow> real \<Rightarrow> real" where
  "yaw_correction pmode yaw = max (- 0.5) (min 0.5 (yaw_error pmode yaw * 0.5))"

text \<open>Lines 391 to 434: what the iteration does once \<^verbatim>\<open>get_speed\<close> has returned.\<close>

definition walk_with_speed ::
  "real \<Rightarrow> real \<Rightarrow> real \<Rightarrow> real \<Rightarrow> gait_main \<Rightarrow> gait_main" where
  "walk_with_speed current_time elapsed_time distance_traveled target_speed s =
     (let pc = path_controller s;
          gaze_angle = get_gaze_angle pc elapsed_time;
          is_stopped = (target_speed = 0.0);
          pc1 = (if is_stopped \<and> \<not> was_stopped pc then pc\<lparr>was_stopped := True\<rparr>
                 else if \<not> is_stopped \<and> was_stopped pc then pc\<lparr>was_stopped := False\<rparr>
                 else pc);
          lst = (if current_time - last_status_time s > 2.0 \<and> target_speed > 0
                 then current_time else last_status_time s);
          linear_velocity = (if path_mode s = ''forward'' then (target_speed, 0, 0)
                             else (0, target_speed, 0));
          gaze_rad = (if gaze_enabled pc1 then radians gaze_angle else 0);
          angular_velocity =
            (0, 0, yaw_correction (path_mode s) (current_yaw (robot s)) + gaze_rad * 0.1);
          r1 = set_base_velocity linear_velocity angular_velocity (robot s);
          s1 = s\<lparr>path_controller := pc1, last_status_time := lst, robot := r1\<rparr>
      in if distance_traveled \<ge> path_length pc1 then
           s1\<lparr>robot := set_base_velocity zero3 zero3 r1, is_walking := False\<rparr>
         else s1)"

definition walking_logic :: "real \<Rightarrow> gait_main \<Rightarrow> gait_main outcome" where
  "walking_logic current_time s =
     (case (is_walking s, start_time s) of
        (True, Some st) \<Rightarrow>
          (let elapsed_time = current_time - st;
               current_pos = get_position (robot s);
               distance_traveled = distance_traveled_of current_pos (initial_pos s)
           in case call_get_speed (path_controller s) [distance_traveled, current_time] of
                Inl e \<Rightarrow> Inl (e, s)
              | Inr target_speed \<Rightarrow>
                  Inr (walk_with_speed current_time elapsed_time distance_traveled target_speed s))
      | _ \<Rightarrow> Inr (s\<lparr>robot := set_base_velocity zero3 zero3 (robot s)\<rparr>))"

subsection \<open>One iteration of the loop (lines 319 to 440)\<close>

definition heartbeat :: "real \<Rightarrow> gait_main \<Rightarrow> gait_main" where
  "heartbeat current_time s =
     (if current_time - last_cmd_time (robot s) > 0.5
      then s\<lparr>robot := set_base_velocity zero3 zero3 (robot s)\<rparr> else s)"

definition gait_tick :: "tick_input \<Rightarrow> gait_main \<Rightarrow> gait_main outcome" where
  "gait_tick inp s0 =
     (let s = s0\<lparr>robot := monitor_state inp (robot s0)\<rparr>;
          current_time = clock (robot s)
      in if \<not> is_connected (robot s) then
           Inr (s\<lparr>is_walking := False,
                  robot := sleep 1 (set_base_velocity zero3 zero3 (robot s))\<rparr>)
         else
           case handle_keys (keys inp) current_time (heartbeat current_time s) of
             Inl e \<Rightarrow> Inl e
           | Inr s2 \<Rightarrow>
               (case walking_logic current_time s2 of
                  Inl e \<Rightarrow> Inl e
                | Inr s3 \<Rightarrow> Inr (s3\<lparr>robot := sleep 0.02 (robot s3)\<rparr>)))"

subsection \<open>The whole program: loop, handlers and \<^verbatim>\<open>finally\<close> (lines 283 to 459)\<close>

text \<open>
  The loop has no exit of its own. It ends when an iteration raises, or when the
  environment interrupts it; the list of inputs holds the iterations that run to their
  end before that.
\<close>

fun gait_loop :: "tick_input list \<Rightarrow> gait_main \<Rightarrow> gait_main outcome" where
  "gait_loop [] s = Inr s"
| "gait_loop (inp # inps) s =
     (case gait_tick inp s of Inl e \<Rightarrow> Inl e | Inr s' \<Rightarrow> gait_loop inps s')"

text \<open>
  How control leaves the \<^verbatim>\<open>try\<close> block: a \<^verbatim>\<open>KeyboardInterrupt\<close>, an \<^verbatim>\<open>Exception\<close>,
  or any other way (the block completing, or an exception that is neither, such as
  \<^verbatim>\<open>SystemExit\<close>), for which only \<^verbatim>\<open>finally\<close> runs. \<open>gait_exit\<close> is the matching handler followed by the
  \<^verbatim>\<open>finally\<close> block; the variable \<^verbatim>\<open>robot\<close> is \<^verbatim>\<open>None\<close> when the constructor raised.
\<close>

datatype exit_cause = KeyboardInterrupt | Fault | OtherExit

definition gait_handler :: "exit_cause \<Rightarrow> Go2RealRobot option \<Rightarrow> Go2RealRobot option" where
  "gait_handler cause rob =
     (case cause of
        KeyboardInterrupt \<Rightarrow> (case rob of Some r \<Rightarrow> Some (emergency_stop r) | None \<Rightarrow> None)
      | Fault \<Rightarrow> (case rob of Some r \<Rightarrow> Some (emergency_stop r) | None \<Rightarrow> None)
      | OtherExit \<Rightarrow> rob)"

definition gait_finally :: "Go2RealRobot option \<Rightarrow> Go2RealRobot option" where
  "gait_finally rob =
     (case rob of Some r \<Rightarrow> Some (set_base_velocity zero3 zero3 r) | None \<Rightarrow> None)"

definition gait_exit :: "exit_cause \<Rightarrow> Go2RealRobot option \<Rightarrow> Go2RealRobot option" where
  "gait_exit cause rob = gait_finally (gait_handler cause rob)"

text \<open>
  \<open>gait_program now connects inps cause\<close> is a run of \<^verbatim>\<open>main\<close> from the \<^verbatim>\<open>try\<close>
  on: the constructor, the iterations \<open>inps\<close>, then the exit. An iteration that raises
  leaves through the \<^verbatim>\<open>Exception\<close> handler; otherwise \<open>cause\<close> interrupts the loop
  after the last iteration. The result is the robot object at process exit, if any.
\<close>

definition gait_program ::
  "real \<Rightarrow> bool \<Rightarrow> tick_input list \<Rightarrow> exit_cause \<Rightarrow> Go2RealRobot option" where
  "gait_program now connects inps cause =
     (case Go2RealRobot_init now connects of
        Inl e \<Rightarrow> gait_exit Fault None
      | Inr r \<Rightarrow>
          (case gait_loop inps (gait_main_init r) of
             Inl (e, s) \<Rightarrow> gait_exit Fault (Some (robot s))
           | Inr s \<Rightarrow> gait_exit cause (Some (robot s))))"

section \<open>The simulation loop (go2\_gait\_simulation.py, main)\<close>

text \<open>
  The PyBullet twin of the loop. \<open>sim_velocity_cmds\<close> lists the linear and angular
  velocities given to \<^verbatim>\<open>p.resetBaseVelocity\<close>, by \<^verbatim>\<open>Go2Robot.set_base_velocity\<close> and
  by \<^verbatim>\<open>Go2Robot.reset\<close>. Joint animation and the pose reset of key \<^verbatim>\<open>p\<close> set no
  base velocity and are left out. An iteration reads the clock once
  (\<open>sim_now\<close>), the base position from the physics engine (\<open>sim_position\<close>) and the
  keys whose state has \<^verbatim>\<open>KEY_WAS_TRIGGERED\<close>.
\<close>

record sim_main =
  sim_velocity_cmds :: "(vec3 \<times> vec3) list"
  sim_path_controller :: path_controller
  sim_path_mode :: string
  sim_is_walking :: bool
  sim_start_time :: "real option"
  sim_initial_pos :: "vec3 option"

record sim_input =
  sim_now :: real
  sim_position :: vec3
  sim_keys :: "nat list"

definition sim_main_init :: sim_main where
  "sim_main_init =
     \<lparr>sim_velocity_cmds = [], sim_path_controller = PathController_init,
      sim_path_mode = ''leftward'', sim_is_walking = False, sim_start_time = None,
      sim_initial_pos = None\<rparr>"

definition sim_set_base_velocity :: "vec3 \<Rightarrow> vec3 \<Rightarrow> sim_main \<Rightarrow> sim_main" where
  "sim_set_base_velocity linear_velocity angular_velocity s =
     s\<lparr>sim_velocity_cmds := sim_velocity_cmds s @ [(linear_velocity, angular_velocity)]\<rparr>"

definition sim_handle_keys :: "sim_input \<Rightarrow> sim_main \<Rightarrow> sim_main outcome" where
  "sim_handle_keys inp s =
     (let ks = sim_keys inp;
          s1 = (if ord CHR '' '' \<in> set ks then
                  (let t = s\<lparr>sim_is_walking := \<not> sim_is_walking s\<rparr> in
                   if sim_is_walking t then
                     t\<lparr>sim_start_time := Some (sim_now inp),
                       sim_initial_pos := Some (sim_position inp),
                       sim_path_controller := (sim_path_controller t)\<lparr>was_stopped := False\<rparr>\<rparr>
                   else t)
                else s);
          s2 = (if ord CHR ''p'' \<in> set ks then
                  s1\<lparr>sim_path_mode :=
                       (if sim_path_mode s1 = ''forward'' then ''leftward'' else ''forward'')\<rparr>
                else s1);
          pc = sim_path_controller s2
      in if ord CHR ''s'' \<in> set ks \<and> length (speed_modes pc) = 0 then Inl (ZeroDivisionError, s2)
         else
           let s3 = (if ord CHR ''s'' \<in> set ks then
                       s2\<lparr>sim_path_controller := pc\<lparr>current_speed_mode :=
                            (current_speed_mode pc + 1) mod length (speed_modes pc)\<rparr>\<rparr>
                     else s2);
               s4 = (if ord CHR ''g'' \<in> set ks then
                       s3\<lparr>sim_path_controller := (sim_path_controller s3)
                            \<lparr>gaze_enabled := \<not> gaze_enabled (sim_path_controller s3)\<rparr>\<rparr>
                     else s3)
           in Inr (if ord CHR ''r'' \<in> set ks then
                     (sim_set_base_velocity zero3 zero3 s4)
                       \<lparr>sim_is_walking := False, sim_path_mode := ''leftward'',
                        sim_path_controller := (sim_path_controller s4)\<lparr>was_stopped := False\<rparr>\<rparr>
                   else s4))"

definition sim_walking_logic :: "sim_input \<Rightarrow> sim_main \<Rightarrow> sim_main outcome" where
  "sim_walking_logic inp s =
     (case (sim_is_walking s, sim_start_time s) of
        (True, Some st) \<Rightarrow>
          (let elapsed_time = sim_now inp - st;
               d = distance_traveled_of (sim_position inp) (sim_initial_pos s);
               pc = sim_path_controller s
           in case call_get_speed pc [d] of
                Inl e \<Rightarrow> Inl (e, s)
              | Inr target_speed \<Rightarrow>
                  (let gaze_angle = get_gaze_angle pc elapsed_time;
                       is_stopped = (target_speed = 0.0);
                       pc1 = (if is_stopped \<and> \<not> was_stopped pc then pc\<lparr>was_stopped := True\<rparr>
                              else if \<not> is_stopped \<and> was_stopped pc
                              then pc\<lparr>was_stopped := False\<rparr> else pc);
                       linear_velocity = (0, target_speed, 0);
                       angular_velocity = (0, 0, radians gaze_angle * 0.1);
                       s1 = sim_set_base_velocity linear_velocity angular_velocity
                              (s\<lparr>sim_path_controller := pc1\<rparr>)
                   in Inr (if d \<ge> path_length pc1 then s1\<lparr>sim_is_walking := False\<rparr> else s1)))
      | _ \<Rightarrow> Inr (sim_set_base_velocity zero3 zero3 s))"

definition sim_tick :: "sim_input \<Rightarrow> sim_main \<Rightarrow> sim_main outcome" where
  "sim_tick inp s =
     (case sim_handle_keys inp s of
        Inl e \<Rightarrow> Inl e
      | Inr s1 \<Rightarrow> sim_walking_logic inp s1)"

section \<open>The unified controller (go2control\_system.py)\<close>

record RobotState =
  position :: vec3
  orientation :: real
  velocity :: real
  is_moving :: bool
  distance_traveled :: real
  mode :: string

record StraightPathPlanner =
  plan_path_length :: real
  gaze_smoothing :: real

definition StraightPathPlanner_init :: StraightPathPlanner where
  "StraightPathPlanner_init = \<lparr>plan_path_length = 10.0, gaze_smoothing = 0.1\<rparr>"

definition calculate_next_position :: "RobotState \<Rightarrow> real \<Rightarrow> vec3" where
  "calculate_next_position current_state dt =
     (if \<not> is_moving current_state then position current_state
      else
        let dx = (if mode current_state = ''rightward'' then velocity current_state * dt else 0);
            dy = (if mode current_state = ''rightward'' then 0 else velocity current_state * dt);
            new_x = idx0 (position current_state) + dx;
            new_y = idx1 (position current_state);
            new_z = idx2 (position current_state) + dy
        in (new_x, new_y, new_z))"

text \<open>
  The two normalising loops of \<^verbatim>\<open>calculate_orientation\<close>,
  \<^verbatim>\<open>while yaw_diff > 180: yaw_diff -= 360\<close> and
  \<^verbatim>\<open>while yaw_diff < -180: yaw_diff += 360\<close>. Each stops: the number of remaining
  turns is a measure.
\<close>

function wrap_down :: "real \<Rightarrow> real" where
  "wrap_down yaw_diff = (if yaw_diff > 180 then wrap_down (yaw_diff - 360) else yaw_diff)"
  by pat_completeness auto
termination
proof (relation "measure (\<lambda>d. nat \<lceil>(d - 180) / 360\<rceil>)")
  show "wf (measure (\<lambda>d. nat \<lceil>(d - 180) / 360\<rceil>))" by simp
next
  fix yaw_diff :: real
  assume gt: "180 < yaw_diff"
  have eq: "(yaw_diff - 360 - 180) / 360 = (yaw_diff - 180) / 360 - 1"
    by (simp add: field_simps)
  from gt have "0 < (yaw_diff - 180) / 360" by simp
  then have "0 < \<lceil>(yaw_diff - 180) / 360\<rceil>" by (simp add: ceiling_less_iff)
  then show "(yaw_diff - 360, yaw_diff) \<in> measure (\<lambda>d. nat \<lceil>(d - 180) / 360\<rceil>)"
    unfolding in_measure eq ceiling_diff_one by linarith
qed

function wrap_up :: "real \<Rightarrow> real" where
  "wrap_up yaw_diff = (if yaw_diff < - 180 then wrap_up (yaw_diff + 360) else yaw_diff)"
  by pat_completeness auto
termination
proof (relation "measure (\<lambda>d. nat \<lceil>(- 180 - d) / 360\<rceil>)")
  show "wf (measure (\<lambda>d. nat \<lceil>(- 180 - d) / 360\<rceil>))" by simp
next
  fix yaw_diff :: real
  assume lt: "yaw_diff < - 180"
  have eq: "(- 180 - (yaw_diff + 360)) / 360 = (- 180 - yaw_diff) / 360 - 1"
    by (simp add: field_simps)
  from lt have "0 < (- 180 - yaw_diff) / 360" by simp
  then have "0 < \<lceil>(- 180 - yaw_diff) / 360\<rceil>" by (simp add: ceiling_less_iff)
  then show "(yaw_diff + 360, yaw_diff) \<in> measure (\<lambda>d. nat \<lceil>(- 180 - d) / 360\<rceil>)"
    unfolding in_measure eq ceiling_diff_one by linarith
qed

declare wrap_down.simps [simp del]
declare wrap_up.simps [simp del]

definition calculate_orientation :: "StraightPathPlanner \<Rightarrow> RobotState \<Rightarrow> real \<Rightarrow> real" where
  "calculate_orientation self current_state target_gaze =
     (let current_yaw' = orientation current_state;
          yaw_diff = wrap_up (wrap_down (target_gaze - current_yaw'));
          new_yaw = current_yaw' + yaw_diff * gaze_smoothing self
      in new_yaw)"

subsection \<open>RobotControllerBase and UnitySimulationController\<close>

text \<open>
  The controller that \<^verbatim>\<open>UnifiedGo2Controller\<close> builds by default. \<open>link_connected\<close>
  is its attribute \<^verbatim>\<open>is_connected\<close>, and \<open>datagrams\<close> lists
  the JSON commands that \<^verbatim>\<open>send_movement_command\<close> passed to \<^verbatim>\<open>sendto\<close>; an exception
  of the socket is caught there. The receiving thread overwrites \<^verbatim>\<open>position\<close>,
  \<^verbatim>\<open>orientation\<close> and \<^verbatim>\<open>distance_traveled\<close> of \<open>current_state\<close> from each status
  message (\<open>receive_status\<close>); \<^verbatim>\<open>RealGo2Controller\<close> overwrites the first two only.
\<close>

record unity_command =
  cmd_velocity :: vec3
  cmd_yawRate :: real
  cmd_speed :: real
  cmd_mode :: string
  cmd_gazeAngle :: real
  cmd_isMoving :: bool

record controller =
  current_state :: RobotState
  target_speed :: real
  target_gaze :: real
  path_planner :: StraightPathPlanner
  link_connected :: bool
  datagrams :: "unity_command list"

definition controller_init :: controller where
  "controller_init =
     \<lparr>current_state = \<lparr>position = (0, 0, 0), orientation = 0, velocity = 0,
                        is_moving = False, distance_traveled = 0, mode = ''forward''\<rparr>,
      target_speed = 0.5, target_gaze = 0, path_planner = StraightPathPlanner_init,
      link_connected = False, datagrams = []\<rparr>"

definition connect :: "controller \<Rightarrow> controller" where
  "connect self = self\<lparr>link_connected := True\<rparr>"

definition receive_status :: "vec3 \<Rightarrow> real \<Rightarrow> real \<Rightarrow> controller \<Rightarrow> controller" where
  "receive_status pos yaw travelled self =
     self\<lparr>current_state := (current_state self)
            \<lparr>position := pos, orientation := yaw, distance_traveled := travelled\<rparr>\<rparr>"

definition send_movement_command :: "vec3 \<Rightarrow> real \<Rightarrow> controller \<Rightarrow> controller" where
  "send_movement_command v yaw_rate self =
     (if \<not> link_connected self then self
      else self\<lparr>datagrams := datagrams self @
             [\<lparr>cmd_velocity = v, cmd_yawRate = yaw_rate, cmd_speed = target_speed self,
               cmd_mode = mode (current_state self), cmd_gazeAngle = target_gaze self,
               cmd_isMoving = is_moving (current_state self)\<rparr>]\<rparr>)"

text \<open>
  \<^verbatim>\<open>RobotControllerBase.update\<close>. At the end of the path it calls
  \<^verbatim>\<open>self.stop_movement()\<close>, a method that no controller class defines: the attribute
  lookup raises \<^verbatim>\<open>AttributeError\<close>, after the state has been written.
\<close>

definition update :: "real \<Rightarrow> controller \<Rightarrow> controller outcome" where
  "update dt self =
     (if is_moving (current_state self) then
        let st = current_state self;
            new_position = calculate_next_position st dt;
            dx = idx0 new_position - idx0 (position st);
            dz = idx2 new_position - idx2 (position st);
            distance_delta = sqrt (dx * dx + dz * dz);
            st1 = st\<lparr>distance_traveled := distance_traveled st + distance_delta\<rparr>;
            st2 = st1\<lparr>position := new_position\<rparr>;
            st3 = st2\<lparr>orientation := calculate_orientation (path_planner self) st2 (target_gaze self)\<rparr>;
            self1 = self\<lparr>current_state := st3\<rparr>
        in if distance_traveled st3 \<ge> plan_path_length (path_planner self)
           then Inl (AttributeError, self1) else Inr self1
      else Inr self)"

subsection \<open>UnifiedGo2Controller\<close>

text \<open>
  \<^verbatim>\<open>start\<close> also spawns the thread that runs \<^verbatim>\<open>_update_loop\<close>, and \<^verbatim>\<open>stop\<close> joins
  it; the thread's steps are \<open>update\<close> and \<open>send_movement_command\<close> above.
\<close>

record UnifiedGo2Controller =
  controller :: controller
  is_running :: bool
  speed :: real
  gaze_angle :: real
  movement_mode :: string

definition UnifiedGo2Controller_init :: UnifiedGo2Controller where
  "UnifiedGo2Controller_init =
     \<lparr>controller = controller_init, is_running = False, speed = 0.5, gaze_angle = 0,
      movement_mode = ''forward''\<rparr>"

definition start :: "UnifiedGo2Controller \<Rightarrow> UnifiedGo2Controller" where
  "start self =
     self\<lparr>controller := (controller self)
            \<lparr>current_state := (current_state (controller self))
               \<lparr>is_moving := True, mode := movement_mode self\<rparr>,
             target_speed := speed self, target_gaze := gaze_angle self\<rparr>,
          is_running := True\<rparr>"

definition stop :: "UnifiedGo2Controller \<Rightarrow> UnifiedGo2Controller" where
  "stop self =
     (let c1 = (controller self)
                 \<lparr>current_state := (current_state (controller self))\<lparr>is_moving := False\<rparr>\<rparr>
      in self\<lparr>controller := send_movement_command (0, 0, 0) 0 c1, is_running := False\<rparr>)"

definition set_speed :: "real \<Rightarrow> UnifiedGo2Controller \<Rightarrow> UnifiedGo2Controller" where
  "set_speed v self =
     (let self1 = self\<lparr>speed := max 0.1 (min 2.0 v)\<rparr>
      in self1\<lparr>controller := (controller self1)\<lparr>target_speed := speed self1\<rparr>\<rparr>)"

definition set_gaze :: "real \<Rightarrow> UnifiedGo2Controller \<Rightarrow> UnifiedGo2Controller" where
  "set_gaze angle self =
     (let self1 = self\<lparr>gaze_angle := max (- 90) (min 90 angle)\<rparr>
      in self1\<lparr>controller := (controller self1)\<lparr>target_gaze := gaze_angle self1\<rparr>\<rparr>)"

text \<open>
  One iteration of \<^verbatim>\<open>_update_loop\<close>, the body of the thread that \<^verbatim>\<open>start\<close> spawns:
  \<^verbatim>\<open>update\<close>, then the movement command with its yaw rate.
\<close>

definition update_loop_step :: "real \<Rightarrow> UnifiedGo2Controller \<Rightarrow> UnifiedGo2Controller outcome" where
  "update_loop_step dt self =
     (case update dt (controller self) of
        Inl (e, c) \<Rightarrow> Inl (e, self\<lparr>controller := c\<rparr>)
      | Inr c \<Rightarrow>
          if is_moving (current_state c) then
            let v = (if movement_mode self = ''rightward'' then (speed self, 0, 0)
                     else (0, 0, speed self));
                yaw_error' = gaze_angle self - orientation (current_state c);
                yaw_rate = yaw_error' * 0.1
            in Inr (self\<lparr>controller := send_movement_command v yaw_rate c\<rparr>)
          else Inr (self\<lparr>controller := c\<rparr>))"

section \<open>The command-line controller (pyCLI.py)\<close>

text \<open>
  The attributes of \<^verbatim>\<open>Go2Controller\<close> carry the prefix \<open>cli\<close> where the name is
  taken already. \<open>cli_sent\<close> lists the JSON commands that \<^verbatim>\<open>send_command\<close> passed to
  \<^verbatim>\<open>sendto\<close>; an exception of the socket is caught there.
\<close>

datatype MovementMode = FORWARD | RIGHTWARD

fun mode_value :: "MovementMode \<Rightarrow> string" where
  "mode_value FORWARD = ''forward''"
| "mode_value RIGHTWARD = ''rightward''"

record cli_command =
  json_speed :: real
  json_mode :: string
  json_gazeAngle :: real
  json_start :: bool
  json_stop :: bool
  json_reset :: bool

record Go2Controller =
  cli_speed :: real
  cli_mode :: MovementMode
  cli_gaze_angle :: real
  cli_is_moving :: bool
  receiving :: bool
  cli_sent :: "cli_command list"

definition Go2Controller_init :: Go2Controller where
  "Go2Controller_init =
     \<lparr>cli_speed = 0.5, cli_mode = FORWARD, cli_gaze_angle = 0.0, cli_is_moving = False,
      receiving = True, cli_sent = []\<rparr>"

definition send_command :: "cli_command \<Rightarrow> Go2Controller \<Rightarrow> Go2Controller" where
  "send_command command self = self\<lparr>cli_sent := cli_sent self @ [command]\<rparr>"

definition start_movement :: "Go2Controller \<Rightarrow> Go2Controller" where
  "start_movement self =
     (let self1 = self\<lparr>cli_is_moving := True\<rparr>
      in send_command
           \<lparr>json_speed = cli_speed self1, json_mode = mode_value (cli_mode self1),
            json_gazeAngle = cli_gaze_angle self1, json_start = True, json_stop = False,
            json_reset = False\<rparr> self1)"

definition stop_movement :: "Go2Controller \<Rightarrow> Go2Controller" where
  "stop_movement self =
     (let self1 = self\<lparr>cli_is_moving := False\<rparr>
      in send_command
           \<lparr>json_speed = 0, json_mode = mode_value (cli_mode self1),
            json_gazeAngle = cli_gaze_angle self1, json_start = False, json_stop = True,
            json_reset = False\<rparr> self1)"

definition reset_position :: "Go2Controller \<Rightarrow> Go2Controller" where
  "reset_position self =
     (let self1 = self\<lparr>cli_is_moving := False\<rparr>
      in send_command
           \<lparr>json_speed = 0, json_mode = mode_value (cli_mode self1),
            json_gazeAngle = cli_gaze_angle self1, json_start = False, json_stop = False,
            json_reset = True\<rparr> self1)"

definition update_movement :: "Go2Controller \<Rightarrow> Go2Controller" where
  "update_movement self =
     send_command
       \<lparr>json_speed = cli_speed self, json_mode = mode_value (cli_mode self),
        json_gazeAngle = cli_gaze_angle self, json_start = False, json_stop = False,
        json_reset = False\<rparr> self"

definition cli_set_speed :: "real \<Rightarrow> Go2Controller \<Rightarrow> Go2Controller" where
  "cli_set_speed v self =
     (let self1 = self\<lparr>cli_speed := max 0.1 (min 2.0 v)\<rparr>
      in if cli_is_moving self1 then update_movement self1 else self1)"

definition cli_set_mode :: "MovementMode \<Rightarrow> Go2Controller \<Rightarrow> Go2Controller" where
  "cli_set_mode m self =
     (let self1 = self\<lparr>cli_mode := m\<rparr>
      in if cli_is_moving self1 then update_movement self1 else self1)"

definition set_gaze_angle :: "real \<Rightarrow> Go2Controller \<Rightarrow> Go2Controller" where
  "set_gaze_angle angle self =
     (let self1 = self\<lparr>cli_gaze_angle := max (- 90) (min 90 angle)\<rparr>
      in if cli_is_moving self1 then update_movement self1 else self1)"

definition cleanup :: "Go2Controller \<Rightarrow> Go2Controller" where
  "cleanup self = self\<lparr>receiving := False\<rparr>"

text \<open>
  The command loop of \<^verbatim>\<open>main\<close>. A line is one of the commands below; \<open>Ignored\<close>
  stands for every line that changes nothing (an empty line, \<^verbatim>\<open>help\<close>, \<^verbatim>\<open>status\<close>,
  an unknown command, a value that does not parse, and a \<^verbatim>\<open>KeyboardInterrupt\<close>, which
  the loop catches). \<open>RunPreset\<close> carries the speed, mode and gaze of a known preset.
  The loop ends with \<^verbatim>\<open>quit\<close> or with an exception of \<^verbatim>\<open>input\<close>; either way the
  \<^verbatim>\<open>finally\<close> block runs.
\<close>

datatype cli_line =
  Quit | Ignored | Start | Stop | Reset | Speed real | Mode MovementMode | Gaze real
  | RunPreset real MovementMode real

definition run_preset :: "real \<Rightarrow> MovementMode \<Rightarrow> real \<Rightarrow> Go2Controller \<Rightarrow> Go2Controller" where
  "run_preset v m g self =
     start_movement (set_gaze_angle g (cli_set_mode m (cli_set_speed v (reset_position self))))"

fun cli_loop :: "cli_line list \<Rightarrow> Go2Controller \<Rightarrow> Go2Controller" where
  "cli_loop [] self = self"
| "cli_loop (Quit # ls) self = self"
| "cli_loop (Ignored # ls) self = cli_loop ls self"
| "cli_loop (Start # ls) self = cli_loop ls (start_movement self)"
| "cli_loop (Stop # ls) self = cli_loop ls (stop_movement self)"
| "cli_loop (Reset # ls) self = cli_loop ls (reset_position self)"
| "cli_loop (Speed v # ls) self = cli_loop ls (cli_set_speed v self)"
| "cli_loop (Mode m # ls) self = cli_loop ls (cli_set_mode m self)"
| "cli_loop (Gaze g # ls) self = cli_loop ls (set_gaze_angle g self)"
| "cli_loop (RunPreset v m g # ls) self = cli_loop ls (run_preset v m g self)"

definition cli_finally :: "Go2Controller \<Rightarrow> Go2Controller" where
  "cli_finally self = cleanup (stop_movement self)"

definition cli_program :: "cli_line list \<Rightarrow> Go2Controller" where
  "cli_program ls = cli_finally (cli_loop ls Go2Controller_init)"

section \<open>Observations of one iteration\<close>

text \<open>
  What an observer of the real-robot loop sees of one iteration: the state it leaves
  (also when it raised), the exception if any, the time it took and the commands it sent.
\<close>

definition tick_state :: "tick_input \<Rightarrow> gait_main \<Rightarrow> gait_main" where
  "tick_state inp s = (case gait_tick inp s of Inl (e, s') \<Rightarrow> s' | Inr s' \<Rightarrow> s')"

definition tick_raises :: "tick_input \<Rightarrow> gait_main \<Rightarrow> py_error option" where
  "tick_raises inp s = (case gait_tick inp s of Inl (e, s') \<Rightarrow> Some e | Inr s' \<Rightarrow> None)"

definition tick_duration :: "tick_input \<Rightarrow> gait_main \<Rightarrow> real" where
  "tick_duration inp s = clock (robot (tick_state inp s)) - clock (robot s)"

definition tick_commands :: "tick_input \<Rightarrow> gait_main \<Rightarrow> vec3 list" where
  "tick_commands inp s = drop (length (sent (robot s))) (sent (robot (tick_state inp s)))"

text \<open>The same for the simulation loop.\<close>

definition sim_tick_state :: "sim_input \<Rightarrow> sim_main \<Rightarrow> sim_main" where
  "sim_tick_state inp s = (case sim_tick inp s of Inl (e, s') \<Rightarrow> s' | Inr s' \<Rightarrow> s')"

definition sim_tick_commands :: "sim_input \<Rightarrow> sim_main \<Rightarrow> (vec3 \<times> vec3) list" where
  "sim_tick_commands inp s =
     drop (length (sim_velocity_cmds s)) (sim_velocity_cmds (sim_tick_state inp s))"

text \<open>
  The planar distance of the specification in the coordinates of the unified
  controller, whose vertical axis is the second one.
\<close>

definition planar_xz :: "vec3 \<Rightarrow> vec3 \<Rightarrow> real" where
  "planar_xz p q = sqrt ((idx0 p - idx0 q)\<^sup>2 + (idx2 p - idx2 q)\<^sup>2)"

text \<open>
  The shortest angular distance of the specification (section 4.4): the representative of
  an angle in the interval from \<open>- pi\<close> (excluded) to \<open>pi\<close> (included).
\<close>

definition wrap_to_pi :: "real \<Rightarrow> real" where
  "wrap_to_pi a = a - 2 * pi * of_int (\<lceil>(a - pi) / (2 * pi)\<rceil>)"

subsection \<open>Concrete states used below\<close>

definition robot0 :: Go2RealRobot where
  "robot0 =
     \<lparr>start_pos = (0.0, 0.0, 0.28), initial_yaw = 0.0, current_yaw = 0.0,
      current_position = (0.0, 0.0, 0.28), is_connected = True,
      last_cmd_time = 0, sent = [], clock = 0\<rparr>"

definition connected_no_keys :: tick_input where
  "connected_no_keys =
     \<lparr>fb_connected = True, fb_position = (0.0, 0.0, 0.28), fb_yaw = 0, keys = []\<rparr>"

definition press_space :: tick_input where
  "press_space =
     \<lparr>fb_connected = True, fb_position = (0.0, 0.0, 0.28), fb_yaw = 0, keys = [32]\<rparr>"

definition link_lost :: tick_input where
  "link_lost =
     \<lparr>fb_connected = False, fb_position = (0.0, 3.0, 0.28), fb_yaw = 0, keys = []\<rparr>"

definition walking_state :: gait_main where
  "walking_state =
     (gait_main_init robot0)\<lparr>is_walking := True, start_time := Some 0,
        initial_pos := Some (0.0, 0.0, 0.28)\<rparr>"

definition sim_at_path_end :: sim_main where
  "sim_at_path_end =
     sim_main_init\<lparr>sim_is_walking := True, sim_start_time := Some 0,
        sim_initial_pos := Some (0, 0, 0.4)\<rparr>"

definition sim_input_at_15 :: sim_input where
  "sim_input_at_15 = \<lparr>sim_now = 10, sim_position = (0, 15, 0.4), sim_keys = []\<rparr>"

definition gait_input_at_15 :: tick_input where
  "gait_input_at_15 =
     \<lparr>fb_connected = True, fb_position = (0.0, 15.0, 0.28), fb_yaw = 0, keys = []\<rparr>"

text \<open>
  The unified controller, connected and started, after a status message with the position
  (3, 0, 4), the orientation 0 and no distance (the key's default): \<open>moving_at_3_0_4\<close>.
  The same with the operator's gaze set to 90 degrees and a status message reporting the
  orientation -170 degrees: \<open>gazing_right\<close>.
\<close>

definition connected_controller :: UnifiedGo2Controller where
  "connected_controller = UnifiedGo2Controller_init\<lparr>controller := connect controller_init\<rparr>"

definition moving_at_3_0_4 :: controller where
  "moving_at_3_0_4 = receive_status (3, 0, 4) 0 0 (controller (start connected_controller))"

definition gazing_right :: UnifiedGo2Controller where
  "gazing_right =
     (let u = start (set_gaze 90 connected_controller)
      in u\<lparr>controller := receive_status (0, 0, 0) (- 170) 0 (controller u)\<rparr>)"

definition last_yawRate :: "UnifiedGo2Controller outcome \<Rightarrow> real option" where
  "last_yawRate res =
     (case res of
        Inl e \<Rightarrow> None
      | Inr u \<Rightarrow> (if datagrams (controller u) = [] then None
                  else Some (cmd_yawRate (last (datagrams (controller u))))))"

section \<open>Shutdown and emergency stop\<close>

lemma set_base_velocity_zero:
  "set_base_velocity zero3 zero3 r = r\<lparr>sent := sent r @ [zero3], last_cmd_time := clock r\<rparr>"
  by (simp add: set_base_velocity_def zero3_def)

lemma stop_burst_sent: "sent (stop_burst n r) = sent r @ replicate n zero3"
  by (induction n arbitrary: r)
     (simp_all add: set_base_velocity_zero sleep_def replicate_append_same)

lemma stop_burst_clock: "clock (stop_burst n r) = clock r + real n * 0.01"
  by (induction n arbitrary: r)
     (simp_all add: set_base_velocity_zero sleep_def algebra_simps)

lemma gait_exit_Some:
  "\<exists>r'. gait_exit cause (Some r) = Some r' \<and> sent r' \<noteq> [] \<and> last (sent r') = zero3"
  by (cases cause)
     (simp_all add: gait_exit_def gait_finally_def gait_handler_def set_base_velocity_zero)

lemma cli_finally_last:
  "cli_sent (cli_finally c) \<noteq> [] \<and> json_speed (last (cli_sent (cli_finally c))) = 0
   \<and> json_stop (last (cli_sent (cli_finally c)))"
  by (simp add: cli_finally_def cleanup_def stop_movement_def send_command_def Let_def)

text \<open>
  Claim C1. On every exit path of the control programs, the last command sent to the
  transport is a zero-velocity command.
  For \<^verbatim>\<open>go2_gait.py\<close>: whatever state \<open>r\<close> the robot object is in when control leaves
  the \<^verbatim>\<open>try\<close> block (so also in the middle of an iteration), and whatever the cause,
  the handler and the \<^verbatim>\<open>finally\<close> block leave a command list that is not empty and
  ends with the zero command; every run of the program with a constructed robot ends
  so; and when the constructor raised there is no robot object and the program has sent
  nothing at all. For \<^verbatim>\<open>pyCLI.py\<close>: after any sequence of command lines the
  \<^verbatim>\<open>finally\<close> block sends the stop command, whose speed is zero, last.
\<close>

theorem zero_velocity_last_on_exit:
  "(\<exists>r'. gait_exit cause (Some r) = Some r' \<and> sent r' \<noteq> [] \<and> last (sent r') = zero3)
   \<and> gait_exit cause None = None
   \<and> (\<exists>r'. gait_program now True inps cause = Some r'
          \<and> sent r' \<noteq> [] \<and> last (sent r') = zero3)
   \<and> gait_program now False inps cause = None
   \<and> cli_sent (cli_program ls) \<noteq> []
   \<and> json_speed (last (cli_sent (cli_program ls))) = 0
   \<and> json_stop (last (cli_sent (cli_program ls)))"
proof -
  have a: "\<exists>r'. gait_program now True inps cause = Some r'
             \<and> sent r' \<noteq> [] \<and> last (sent r') = zero3"
    unfolding gait_program_def Go2RealRobot_init_def
    by (auto split: sum.splits prod.splits intro: gait_exit_Some)
  have b: "gait_program now False inps cause = None"
    by (simp add: gait_program_def Go2RealRobot_init_def gait_exit_def gait_finally_def
        gait_handler_def)
  have c: "gait_exit cause None = None"
    by (cases cause) (simp_all add: gait_exit_def gait_finally_def gait_handler_def)
  from a b c gait_exit_Some [of cause r] cli_finally_last [of "cli_loop ls Go2Controller_init"]
  show ?thesis unfolding cli_program_def by blast
qed

lemma burst_times_eq:
  "burst_times n r = map (\<lambda>k. clock r + real k * 0.01) [0..<n]"
proof (induction n arbitrary: r)
  case 0
  show ?case by simp
next
  case (Suc n)
  have "burst_times (Suc n) r
          = clock r # map (\<lambda>k. clock r + 0.01 + real k * 0.01) [0..<n]"
    by (simp add: Suc.IH set_base_velocity_zero sleep_def Let_def del: upt_Suc)
  also have "\<dots> = map (\<lambda>k. clock r + real k * 0.01) [0..<Suc n]"
    by (simp add: map_upt_Suc algebra_simps del: upt_Suc)
  finally show ?case .
qed

lemma burst_times_hd: "hd (burst_times (Suc n) r) = clock r"
  by (simp add: set_base_velocity_zero Let_def)

lemma burst_times_last: "last (burst_times (Suc n) r) = clock r + real n * 0.01"
  unfolding burst_times_eq by simp

lemma stop_burst_last_cmd_time:
  "last_cmd_time (stop_burst (Suc n) r) = clock r + real n * 0.01"
proof (induction n arbitrary: r)
  case 0
  show ?case by (simp add: set_base_velocity_zero sleep_def)
next
  case (Suc n)
  have "stop_burst (Suc (Suc n)) r
          = stop_burst (Suc n) (sleep 0.01 (set_base_velocity zero3 zero3 r))"
    by simp
  then have "last_cmd_time (stop_burst (Suc (Suc n)) r)
          = clock (sleep 0.01 (set_base_velocity zero3 zero3 r)) + real n * 0.01"
    by (simp only: Suc.IH)
  then show ?case by (simp add: set_base_velocity_zero sleep_def algebra_simps)
qed

lemma emergency_stop_times:
  "hd (burst_times 10 r) = clock r
   \<and> last (burst_times 10 r) = clock r + 0.09
   \<and> last_cmd_time (emergency_stop r) = clock r + 0.09"
proof -
  have ten: "(10::nat) = Suc 9" by simp
  have "hd (burst_times (Suc 9) r) = clock r" by (rule burst_times_hd)
  moreover have "last (burst_times (Suc 9) r) = clock r + real 9 * 0.01"
    by (rule burst_times_last)
  moreover have "last_cmd_time (stop_burst (Suc 9) r) = clock r + real 9 * 0.01"
    by (rule stop_burst_last_cmd_time)
  ultimately show ?thesis unfolding emergency_stop_def ten by simp
qed

text \<open>
  Claim C2, as stated, has the burst of zero-velocity commands span at least 100 ms.
  It does not: the ten commands are sent 10 ms apart, so the last one follows the first
  after nine sleeps, 90 ms; the tenth sleep comes after the last command. For the robot
  object as constructed at time 0 the commands are sent at 0, 0.01, ..., 0.09.
\<close>

theorem emergency_stop_span_below_100ms:
  "hd (burst_times 10 robot0) = 0
   \<and> last (burst_times 10 robot0) = 0.09
   \<and> last_cmd_time (emergency_stop robot0) = last (burst_times 10 robot0)
   \<and> last (burst_times 10 robot0) - hd (burst_times 10 robot0) = 0.09
   \<and> \<not> (0.1 \<le> last (burst_times 10 robot0) - hd (burst_times 10 robot0))"
proof -
  have c: "clock robot0 = 0" by (simp add: robot0_def)
  from emergency_stop_times [of robot0] show ?thesis unfolding c by simp
qed

text \<open>
  Claim C2, amended. Entering the emergency stop, from any state of the robot object and
  also when entered again, issues a burst of ten zero-velocity commands, at least five,
  sent 10 ms apart: the burst spans 90 ms from its first command to its last, and the
  call returns 100 ms after the first command. \<^verbatim>\<open>emergency_stop\<close> appends exactly ten
  zero commands to what was sent before; a second entry appends ten more; and both
  exception handlers of \<^verbatim>\<open>main\<close> enter it. Sleeps are counted with their requested
  duration, a lower bound.
\<close>

theorem emergency_stop_burst:
  "sent (emergency_stop r) = sent r @ replicate 10 zero3
   \<and> length (sent (emergency_stop r)) - length (sent r) \<ge> 5
   \<and> burst_times 10 r = map (\<lambda>k. clock r + real k * 0.01) [0..<10]
   \<and> hd (burst_times 10 r) = clock r
   \<and> last (burst_times 10 r) = last_cmd_time (emergency_stop r)
   \<and> last (burst_times 10 r) - hd (burst_times 10 r) = 0.09
   \<and> clock (emergency_stop r) = clock r + 0.1
   \<and> sent (emergency_stop (emergency_stop r)) = sent r @ replicate 10 zero3 @ replicate 10 zero3
   \<and> gait_handler KeyboardInterrupt (Some r) = Some (emergency_stop r)
   \<and> gait_handler Fault (Some r) = Some (emergency_stop r)"
proof -
  have burst: "sent (emergency_stop x) = sent x @ replicate 10 zero3" for x
    unfolding emergency_stop_def by (rule stop_burst_sent)
  have len: "length (sent (emergency_stop r)) - length (sent r) \<ge> 5"
    by (simp add: burst)
  have time: "clock (emergency_stop r) = clock r + 0.1"
    unfolding emergency_stop_def by (simp add: stop_burst_clock)
  have again: "sent (emergency_stop (emergency_stop r))
                 = sent r @ replicate 10 zero3 @ replicate 10 zero3"
    by (simp only: burst append_assoc)
  have handlers: "gait_handler KeyboardInterrupt (Some r) = Some (emergency_stop r)
                  \<and> gait_handler Fault (Some r) = Some (emergency_stop r)"
    by (simp add: gait_handler_def)
  have span: "hd (burst_times 10 r) = clock r
              \<and> last (burst_times 10 r) = last_cmd_time (emergency_stop r)
              \<and> last (burst_times 10 r) - hd (burst_times 10 r) = 0.09"
    using emergency_stop_times [of r] by simp
  from burst [of r] len burst_times_eq [of 10 r] span time again handlers
  show ?thesis by blast
qed

section \<open>Heading error\<close>

lemma wrap_to_pi_range: "- pi < wrap_to_pi a \<and> wrap_to_pi a \<le> pi"
proof -
  define k where "k = \<lceil>(a - pi) / (2 * pi)\<rceil>"
  have "of_int k - 1 < (a - pi) / (2 * pi)" and "(a - pi) / (2 * pi) \<le> of_int k"
    unfolding k_def by linarith+
  then have "(of_int k - 1) * (2 * pi) < a - pi" and "a - pi \<le> of_int k * (2 * pi)"
    by (simp_all add: pos_less_divide_eq pos_divide_le_eq)
  then show ?thesis unfolding wrap_to_pi_def k_def [symmetric]
    by (simp add: algebra_simps)
qed

lemma wrap_to_pi_example: "wrap_to_pi (pi / 2 + 2) = 2 - 3 * pi / 2"
proof -
  have "\<lceil>(pi / 2 + 2 - pi) / (2 * pi)\<rceil> = 1"
  proof (rule ceiling_unique)
    have "2 - pi / 2 > 0" using pi_less_4 by simp
    then show "of_int 1 - 1 < (pi / 2 + 2 - pi) / (2 * pi)" by simp
    have "pi / 2 + 2 - pi \<le> 2 * pi" using pi_ge_two by simp
    then show "(pi / 2 + 2 - pi) / (2 * pi) \<le> of_int 1" by simp
  qed
  then show ?thesis by (simp add: wrap_to_pi_def algebra_simps)
qed

text \<open>
  The sibling \<^verbatim>\<open>StraightPathPlanner.calculate_orientation\<close> does normalise its
  difference, in degrees: after the two loops it lies between -180 and 180.
\<close>

lemma wrap_down_le: "wrap_down d \<le> 180"
proof (induction d rule: wrap_down.induct)
  case (1 d)
  then show ?case by (cases "d > 180") (simp_all add: wrap_down.simps [of d])
qed

lemma wrap_up_range: "e \<le> 180 \<Longrightarrow> - 180 \<le> wrap_up e \<and> wrap_up e \<le> 180"
proof (induction e rule: wrap_up.induct)
  case (1 e)
  then show ?case by (cases "e < - 180") (simp_all add: wrap_up.simps [of e])
qed

lemma calculate_orientation_wraps:
  "- 180 \<le> wrap_up (wrap_down d) \<and> wrap_up (wrap_down d) \<le> 180"
  by (rule wrap_up_range) (rule wrap_down_le)

lemma wrap_260: "wrap_up (wrap_down 260) = - 100"
  by (simp add: wrap_down.simps [of 260] wrap_down.simps [of "- 100"] wrap_up.simps [of "- 100"])

lemma wrap_270: "wrap_up (wrap_down 270) = - 90"
  by (simp add: wrap_down.simps [of 270] wrap_down.simps [of "- 90"] wrap_up.simps [of "- 90"])

lemma gazing_right_yaw_rate: "last_yawRate (update_loop_step 0.01 gazing_right) = Some 27"
  by (simp add: last_yawRate_def update_loop_step_def gazing_right_def connected_controller_def
      start_def set_gaze_def receive_status_def UnifiedGo2Controller_init_def connect_def
      controller_init_def update_def calculate_next_position_def calculate_orientation_def
      StraightPathPlanner_init_def send_movement_command_def wrap_260 Let_def)

text \<open>
  Claim C3. The heading controller computes its correction from the error wrapped to the
  interval from \<open>- pi\<close> to \<open>pi\<close>, never from the raw difference.
  The walking loop of \<^verbatim>\<open>go2_gait.py\<close> does not: in leftward mode with the yaw -2.0
  (a yaw the IMU can report, since it lies between \<open>- pi\<close> and \<open>pi\<close>) the error it
  uses is the raw difference \<open>pi / 2 + 2\<close>, which exceeds \<open>pi\<close> and is not the wrapped
  error; the wrapped error is negative, yet the correction is +0.5, which turns the
  robot the long way round.
  Nor does the update loop of the unified controller: with the gaze at 90 degrees and a
  reported orientation of -170 degrees, one iteration sends the yaw rate +27, a tenth
  of the raw difference 270, where the normalisation of \<^verbatim>\<open>calculate_orientation\<close>
  gives -90.
\<close>

theorem yaw_error_not_wrapped:
  "- pi \<le> - 2 \<and> (- 2 :: real) \<le> pi
   \<and> yaw_error ''leftward'' (- 2) = pi / 2 + 2
   \<and> pi < yaw_error ''leftward'' (- 2)
   \<and> yaw_error ''leftward'' (- 2) \<noteq> wrap_to_pi (pi / 2 - (- 2))
   \<and> wrap_to_pi (pi / 2 - (- 2)) < 0
   \<and> yaw_correction ''leftward'' (- 2) = 0.5
   \<and> gaze_angle gazing_right = 90
   \<and> orientation (current_state (controller gazing_right)) = - 170
   \<and> last_yawRate (update_loop_step 0.01 gazing_right) = Some 27
   \<and> wrap_up (wrap_down 270) = - 90"
proof -
  have e: "yaw_error ''leftward'' (- 2) = pi / 2 + 2" by (simp add: yaw_error_def)
  have w: "wrap_to_pi (pi / 2 - (- 2)) = 2 - 3 * pi / 2" using wrap_to_pi_example by simp
  have neg: "2 - 3 * pi / 2 < 0" using pi_ge_two by simp
  have big: "pi < pi / 2 + 2" using pi_less_4 by simp
  have c: "yaw_correction ''leftward'' (- 2) = 0.5"
    using pi_ge_two by (simp add: yaw_correction_def e)
  have g: "gaze_angle gazing_right = 90
           \<and> orientation (current_state (controller gazing_right)) = - 170"
    by (simp add: gazing_right_def connected_controller_def start_def set_gaze_def
        receive_status_def UnifiedGo2Controller_init_def Let_def)
  from e w neg big c g pi_ge_two gazing_right_yaw_rate wrap_270 show ?thesis by simp
qed

section \<open>The speed policies\<close>

lemma mode_cases: "i < 6 \<Longrightarrow> i = 0 \<or> i = 1 \<or> i = 2 \<or> i = 3 \<or> i = 4 \<or> i = (5::nat)"
  by arith

lemma get_speed_table:
  assumes "0 \<le> d" and "d \<le> 15" and "i < 6"
  shows "get_speed \<lparr>path_length = 15, speed_modes = default_speed_modes,
            current_speed_mode = i, gaze_enabled = g, was_stopped = w\<rparr> d
         = Inr (SpeedProfile_spec 15 (policies ! i) d)"
  using mode_cases [OF assms(3)]
  by (auto simp: get_speed_def default_speed_modes_def policies_def)

lemma SpeedProfile_spec_range:
  assumes "0 \<le> d" and "d \<le> 15"
  shows "0 \<le> SpeedProfile_spec 15 p d \<and> SpeedProfile_spec 15 p d \<le> 3"
  using assms by (cases p) auto

text \<open>
  Claim C5. For every speed policy and every distance \<open>d\<close> between 0 and the path length
  15, \<^verbatim>\<open>get_speed\<close> returns the value of the specification's policy table, and that
  value lies between 0 and 3; the policy \<open>step_up_at_half\<close> (mode 2, threshold 8.0)
  returns 1.0, 1.0, 3.0, 3.0 at the distances 0, 4, 8.1, 15.0.
\<close>

theorem speed_profile_table_and_range:
  assumes "0 \<le> d" and "d \<le> 15" and "i < 6"
  shows "get_speed \<lparr>path_length = 15, speed_modes = default_speed_modes,
            current_speed_mode = i, gaze_enabled = g, was_stopped = w\<rparr> d
         = Inr (SpeedProfile_spec 15 (policies ! i) d)
       \<and> 0 \<le> SpeedProfile_spec 15 (policies ! i) d
       \<and> SpeedProfile_spec 15 (policies ! i) d \<le> 3
       \<and> policies ! 2 = step_up_at_half
       \<and> map (get_speed (PathController_init\<lparr>current_speed_mode := 2\<rparr>)) [0, 4, 8.1, 15.0]
           = [Inr 1.0, Inr 1.0, Inr 3.0, Inr 3.0]"
proof -
  have ex: "map (get_speed (PathController_init\<lparr>current_speed_mode := 2\<rparr>)) [0, 4, 8.1, 15.0]
           = [Inr 1.0, Inr 1.0, Inr 3.0, Inr 3.0]"
    by (simp add: get_speed_def PathController_init_def default_speed_modes_def)
  have p2: "policies ! 2 = step_up_at_half" by (simp add: policies_def)
  from get_speed_table [OF assms] SpeedProfile_spec_range [OF assms(1,2)] ex p2
  show ?thesis by simp
qed

theorem speed_profile_table_and_range_witness:
  "(0::real) \<le> 8.1 \<and> (8.1::real) \<le> 15 \<and> (2::nat) < 6
   \<and> get_speed \<lparr>path_length = 15, speed_modes = default_speed_modes,
            current_speed_mode = 2, gaze_enabled = False, was_stopped = False\<rparr> 8.1
         = Inr 3"
  using speed_profile_table_and_range [of "8.1" 2 False False]
  by (simp add: policies_def)

text \<open>
  Claim C9. Every walking iteration of the real-robot loop evaluates the speed policy
  without raising.
  It always raises: the loop calls \<^verbatim>\<open>get_speed\<close> with two arguments, the method takes
  one, so the call is a \<^verbatim>\<open>TypeError\<close> whatever the controller, the distance and the
  time; the walking logic raises it in every walking state, before the
  walking command; and the iteration in which the operator presses SPACE on the freshly
  started program ends with it before a single command has been sent, as does an
  iteration of the walking state below.
\<close>

theorem walking_tick_raises_TypeError:
  "call_get_speed pc [d, t] = Inl TypeError
   \<and> walking_logic t (s\<lparr>is_walking := True, start_time := Some st\<rparr>)
       = Inl (TypeError, s\<lparr>is_walking := True, start_time := Some st\<rparr>)
   \<and> tick_raises press_space (gait_main_init robot0) = Some TypeError
   \<and> tick_commands press_space (gait_main_init robot0) = []
   \<and> tick_raises connected_no_keys walking_state = Some TypeError"
  by (simp add: walking_logic_def tick_raises_def tick_commands_def tick_state_def gait_tick_def
      press_space_def connected_no_keys_def walking_state_def gait_main_init_def robot0_def
      monitor_state_def heartbeat_def handle_keys_def on_space_def ord_def get_position_def
      PathController_init_def Let_def)

section \<open>Operator commands\<close>

text \<open>
  Claim C10. After \<^verbatim>\<open>set_speed(v)\<close> the stored speed is \<open>max 0.1 (min 2.0 v)\<close>, for
  every real \<open>v\<close>: it lies between 0.1 and 2.0 and is never zero. This holds for
  \<^verbatim>\<open>UnifiedGo2Controller.set_speed\<close>, which also copies the speed to the controller's
  target speed, and for \<^verbatim>\<open>Go2Controller.set_speed\<close> of the command-line program.
\<close>

theorem set_speed_clamps:
  "speed (set_speed v u) = max 0.1 (min 2.0 v)
   \<and> 0.1 \<le> speed (set_speed v u) \<and> speed (set_speed v u) \<le> 2.0
   \<and> speed (set_speed v u) \<noteq> 0
   \<and> target_speed (controller (set_speed v u)) = speed (set_speed v u)
   \<and> cli_speed (cli_set_speed v c) = max 0.1 (min 2.0 v)
   \<and> 0.1 \<le> cli_speed (cli_set_speed v c) \<and> cli_speed (cli_set_speed v c) \<le> 2.0
   \<and> cli_speed (cli_set_speed v c) \<noteq> 0"
  by (simp add: set_speed_def cli_set_speed_def update_movement_def send_command_def Let_def
      max_def min_def)

section \<open>Distance travelled\<close>

lemma sqrt_25: "sqrt 25 = 5"
  by (rule real_sqrt_unique) simp_all

lemma sqrt_225: "sqrt 225 = 15"
  by (rule real_sqrt_unique) simp_all

lemma wrap_0: "wrap_up (wrap_down 0) = 0"
  by (simp add: wrap_up.simps [of 0] wrap_down.simps [of 0])

text \<open>
  The two loops of \<^verbatim>\<open>go2_gait.py\<close> and \<^verbatim>\<open>go2_gait_simulation.py\<close> compute the
  distance as the planar displacement from the position stored when walking started;
  the height does not enter.
\<close>

lemma distance_traveled_of_planar:
  "distance_traveled_of (x, y, z) (Some (x0, y0, z0)) = sqrt ((x - x0)\<^sup>2 + (y - y0)\<^sup>2)"
  by (simp add: distance_traveled_of_def)

text \<open>
  \<^verbatim>\<open>RobotControllerBase.update\<close> instead adds to the distance the length of the step
  that the planner makes from the state's velocity: it integrates the velocity.
\<close>

lemma update_adds_velocity_step:
  assumes "is_moving (current_state c)"
  shows "distance_traveled (current_state (case update dt c of Inl (e, c') \<Rightarrow> c' | Inr c' \<Rightarrow> c'))
         = distance_traveled (current_state c) + \<bar>velocity (current_state c) * dt\<bar>"
  using assms
  by (cases "position (current_state c)")
     (simp add: update_def calculate_next_position_def Let_def)

text \<open>
  Claim C4. On every walking tick the distance travelled is the planar Euclidean distance
  between the position fed back and the position at the start of the episode, and is
  never computed by integrating the commanded velocity.
  \<^verbatim>\<open>RobotControllerBase.update\<close> breaks it: for the started controller whose feedback
  reports the position (3, 0, 4), a tick of 0.01 s leaves the state as it is, with the
  distance 0, while the planar distance from the start position (0, 0, 0) is 5.
\<close>

theorem update_distance_not_displacement:
  "is_moving (current_state moving_at_3_0_4)
   \<and> position (current_state moving_at_3_0_4) = (3, 0, 4)
   \<and> velocity (current_state moving_at_3_0_4) = 0
   \<and> update 0.01 moving_at_3_0_4 = Inr moving_at_3_0_4
   \<and> distance_traveled (current_state moving_at_3_0_4) = 0
   \<and> planar_xz (position (current_state moving_at_3_0_4))
        (position (current_state controller_init)) = 5"
  by (simp add: moving_at_3_0_4_def connected_controller_def receive_status_def start_def
      UnifiedGo2Controller_init_def connect_def controller_init_def update_def
      calculate_next_position_def calculate_orientation_def StraightPathPlanner_init_def
      wrap_0 planar_xz_def sqrt_25 Let_def)

section \<open>The end of the path\<close>

text \<open>
  Claim C6. When the distance reaches the path length during a walking tick, the
  controller becomes idle on that tick and sends one zero-velocity command before the
  state changes.
  The simulation loop does not: at the distance 15 its iteration sends the walking
  command with the speed 3 as its only and last command and then leaves walking; the
  zero command comes with the next iteration. The real-robot loop has the zero command
  in its text, but no walking iteration reaches it: at the same distance the iteration
  raises \<^verbatim>\<open>TypeError\<close> with nothing sent.
\<close>

theorem path_end_without_stop_command:
  "sim_tick sim_input_at_15 sim_at_path_end
     = Inr (sim_at_path_end\<lparr>sim_velocity_cmds := [((0, 3, 0), (0, 0, 0))],
                            sim_is_walking := False\<rparr>)
   \<and> sim_tick_commands sim_input_at_15 sim_at_path_end = [((0, 3, 0), (0, 0, 0))]
   \<and> \<not> sim_is_walking (sim_tick_state sim_input_at_15 sim_at_path_end)
   \<and> last (sim_tick_commands sim_input_at_15 sim_at_path_end) \<noteq> (zero3, zero3)
   \<and> sim_tick_commands sim_input_at_15 (sim_tick_state sim_input_at_15 sim_at_path_end)
       = [(zero3, zero3)]
   \<and> tick_raises gait_input_at_15 walking_state = Some TypeError
   \<and> tick_commands gait_input_at_15 walking_state = []"
proof -
  have t: "sim_tick sim_input_at_15 sim_at_path_end
     = Inr (sim_at_path_end\<lparr>sim_velocity_cmds := [((0, 3, 0), (0, 0, 0))],
                            sim_is_walking := False\<rparr>)"
    by (simp add: sim_tick_def sim_handle_keys_def sim_walking_logic_def sim_input_at_15_def
        sim_at_path_end_def sim_main_init_def PathController_init_def default_speed_modes_def
        distance_traveled_of_def get_speed_def get_gaze_angle_def radians_def
        sim_set_base_velocity_def sqrt_225 Let_def)
  have n: "sim_tick sim_input_at_15
             (sim_at_path_end\<lparr>sim_velocity_cmds := [((0, 3, 0), (0, 0, 0))],
                              sim_is_walking := False\<rparr>)
     = Inr (sim_at_path_end\<lparr>sim_velocity_cmds := [((0, 3, 0), (0, 0, 0)), (zero3, zero3)],
                            sim_is_walking := False\<rparr>)"
    by (simp add: sim_tick_def sim_handle_keys_def sim_walking_logic_def sim_input_at_15_def
        sim_at_path_end_def sim_main_init_def sim_set_base_velocity_def Let_def)
  have g: "tick_raises gait_input_at_15 walking_state = Some TypeError
           \<and> tick_commands gait_input_at_15 walking_state = []"
    by (simp add: walking_logic_def tick_raises_def tick_commands_def tick_state_def
        gait_tick_def gait_input_at_15_def walking_state_def gait_main_init_def robot0_def
        monitor_state_def heartbeat_def handle_keys_def ord_def get_position_def
        PathController_init_def Let_def)
  have l0: "sim_velocity_cmds sim_at_path_end = []"
    by (simp add: sim_at_path_end_def sim_main_init_def)
  show ?thesis
    unfolding sim_tick_commands_def sim_tick_state_def t
    using g by (simp add: n zero3_def l0)
qed

section \<open>Loss of connectivity\<close>

lemma watchdog_tick:
  assumes "\<not> fb_connected inp"
  shows "gait_tick inp s =
           Inr (s\<lparr>is_walking := False,
                  robot := (monitor_state inp (robot s))
                     \<lparr>sent := sent (robot s) @ [zero3], last_cmd_time := clock (robot s),
                      clock := clock (robot s) + 1\<rparr>\<rparr>)"
  using assms
  by (simp add: gait_tick_def monitor_state_def set_base_velocity_zero sleep_def Let_def)

lemma idle_tick_after_watchdog:
  assumes "fb_connected inp'" and "keys inp' = []" and "\<not> is_walking s'"
    and "clock (robot s') - last_cmd_time (robot s') > 0.5"
  shows "gait_tick inp' s' =
           Inr (s'\<lparr>robot := (monitor_state inp' (robot s'))
                     \<lparr>sent := sent (robot s') @ [zero3, zero3],
                      last_cmd_time := clock (robot s'),
                      clock := clock (robot s') + 0.02\<rparr>\<rparr>)"
  using assms
  by (simp add: gait_tick_def monitor_state_def heartbeat_def handle_keys_def walking_logic_def
      set_base_velocity_zero sleep_def Let_def)

text \<open>
  Claim C7, as stated, has the loop poll connectivity at the tick rate while
  disconnected. It does not: a normal idle iteration lasts 0.02 s, the iteration that
  finds the link lost lasts 1 s.
\<close>

theorem disconnected_poll_is_not_tick_rate:
  "\<not> fb_connected link_lost
   \<and> tick_duration connected_no_keys (gait_main_init robot0) = 0.02
   \<and> tick_duration link_lost walking_state = 1
   \<and> tick_duration link_lost walking_state \<noteq> 0.02"
  by (simp add: tick_duration_def tick_state_def gait_tick_def link_lost_def connected_no_keys_def
      walking_state_def gait_main_init_def robot0_def monitor_state_def heartbeat_def
      handle_keys_def walking_logic_def set_base_velocity_zero sleep_def Let_def)

text \<open>
  Claim C7, amended. If the link is not connected at an iteration, then in whatever
  state, walking or not, that iteration raises nothing, sends exactly one command, the
  zero command, leaves the state idle, and lasts one second: while disconnected the loop
  polls connectivity once per second. Once the link is connected again, the next
  iteration runs the normal loop body with no key pressed: it raises nothing, lasts
  0.02 s, sends the heartbeat zero command and the idle zero command, and stays idle.
\<close>

theorem watchdog_stops_and_polls_every_second:
  assumes "\<not> fb_connected inp" and "fb_connected inp'" and "keys inp' = []"
  shows "tick_raises inp s = None
       \<and> \<not> is_walking (tick_state inp s)
       \<and> tick_commands inp s = [zero3]
       \<and> tick_duration inp s = 1
       \<and> tick_raises inp' (tick_state inp s) = None
       \<and> tick_duration inp' (tick_state inp s) = 0.02
       \<and> tick_commands inp' (tick_state inp s) = [zero3, zero3]
       \<and> \<not> is_walking (tick_state inp' (tick_state inp s))"
proof -
  let ?s' = "s\<lparr>is_walking := False,
                  robot := (monitor_state inp (robot s))
                     \<lparr>sent := sent (robot s) @ [zero3], last_cmd_time := clock (robot s),
                      clock := clock (robot s) + 1\<rparr>\<rparr>"
  have w: "gait_tick inp s = Inr ?s'" by (rule watchdog_tick [OF assms(1)])
  have st: "tick_state inp s = ?s'" by (simp add: tick_state_def w)
  have n: "gait_tick inp' ?s' =
           Inr (?s'\<lparr>robot := (monitor_state inp' (robot ?s'))
                     \<lparr>sent := sent (robot ?s') @ [zero3, zero3],
                      last_cmd_time := clock (robot ?s'),
                      clock := clock (robot ?s') + 0.02\<rparr>\<rparr>)"
    by (rule idle_tick_after_watchdog [OF assms(2,3)]) simp_all
  show ?thesis
    unfolding tick_raises_def tick_duration_def tick_commands_def st
    unfolding tick_state_def w n
    by simp
qed

theorem watchdog_stops_and_polls_every_second_witness:
  "\<not> fb_connected link_lost \<and> fb_connected connected_no_keys \<and> keys connected_no_keys = []
   \<and> is_walking walking_state
   \<and> tick_raises link_lost walking_state = None
   \<and> \<not> is_walking (tick_state link_lost walking_state)
   \<and> tick_commands link_lost walking_state = [zero3]
   \<and> tick_duration link_lost walking_state = 1
   \<and> tick_duration connected_no_keys (tick_state link_lost walking_state) = 0.02"
  using watchdog_stops_and_polls_every_second [of link_lost connected_no_keys walking_state]
  by (simp add: link_lost_def connected_no_keys_def walking_state_def)

section \<open>Stopping when idle\<close>

text \<open>
  Claim C8, as stated, has \<^verbatim>\<open>stop\<close> publish a zero-velocity command whenever the
  controller is idle. The unified controller as constructed is idle and not connected:
  there \<^verbatim>\<open>stop\<close> changes nothing and sends nothing, because
  \<^verbatim>\<open>send_movement_command\<close> returns at once without a connection.
\<close>

theorem stop_sends_nothing_when_not_connected:
  "\<not> is_moving (current_state (controller UnifiedGo2Controller_init))
   \<and> \<not> is_running UnifiedGo2Controller_init
   \<and> \<not> link_connected (controller UnifiedGo2Controller_init)
   \<and> stop UnifiedGo2Controller_init = UnifiedGo2Controller_init
   \<and> datagrams (controller (stop UnifiedGo2Controller_init)) = []"
  by (simp add: stop_def send_movement_command_def UnifiedGo2Controller_init_def
      controller_init_def Let_def)

text \<open>
  Claim C8, amended. Calling stop when the controller is idle changes no field of the
  controller. \<^verbatim>\<open>UnifiedGo2Controller.stop\<close> then sends one command with zero velocity
  and zero yaw rate if the link is connected, and nothing otherwise;
  \<^verbatim>\<open>Go2Controller.stop_movement\<close> of the command-line program always sends its stop
  command, with the speed 0.
\<close>

theorem stop_when_idle:
  assumes "\<not> is_moving (current_state (controller u))" and "\<not> is_running u"
    and "\<not> cli_is_moving c"
  shows "stop u = u\<lparr>controller := (controller u)\<lparr>datagrams := datagrams (controller u) @
            (if link_connected (controller u)
             then [\<lparr>cmd_velocity = (0, 0, 0), cmd_yawRate = 0,
                     cmd_speed = target_speed (controller u),
                     cmd_mode = mode (current_state (controller u)),
                     cmd_gazeAngle = target_gaze (controller u), cmd_isMoving = False\<rparr>]
             else [])\<rparr>\<rparr>
       \<and> stop_movement c = c\<lparr>cli_sent := cli_sent c @
            [\<lparr>json_speed = 0, json_mode = mode_value (cli_mode c),
              json_gazeAngle = cli_gaze_angle c, json_start = False, json_stop = True,
              json_reset = False\<rparr>]\<rparr>"
  using assms
  by (simp add: stop_def send_movement_command_def stop_movement_def send_command_def Let_def)

theorem stop_when_idle_witness:
  "\<not> is_moving (current_state (controller connected_controller))
   \<and> \<not> is_running connected_controller
   \<and> \<not> cli_is_moving Go2Controller_init
   \<and> link_connected (controller connected_controller)
   \<and> datagrams (controller (stop connected_controller))
       = [\<lparr>cmd_velocity = (0, 0, 0), cmd_yawRate = 0, cmd_speed = 0.5, cmd_mode = ''forward'',
           cmd_gazeAngle = 0, cmd_isMoving = False\<rparr>]
   \<and> cli_sent (stop_movement Go2Controller_init)
       = [\<lparr>json_speed = 0, json_mode = ''forward'', json_gazeAngle = 0, json_start = False,
           json_stop = True, json_reset = False\<rparr>]"
  using stop_when_idle [of connected_controller Go2Controller_init]
  by (simp add: connected_controller_def UnifiedGo2Controller_init_def controller_init_def
      connect_def Go2Controller_init_def)

end
